theory Spec2Isabelle
  imports Complex_Main
begin

section \<open>The emotion service of LeLamp (lelamp/service/emotion/emotion_service.py)\<close>

text \<open>
  A shallow embedding of \<^verbatim>\<open>EmotionService\<close>: the classifier call with its response
  parsing (\<^verbatim>\<open>analyze_emotion\<close>), the mapping of an emotion to a recording
  (\<^verbatim>\<open>map_emotion_to_recording\<close>) and the gated pipeline (\<^verbatim>\<open>trigger_reaction\<close>).

  Conventions of the model.
  \<^item> Python floats are modelled as reals (no rounding, no NaN, no infinities); the code
    only compares and subtracts them.
  \<^item> Python strings are modelled as \<open>string\<close>; \<^verbatim>\<open>str.lower\<close> and \<^verbatim>\<open>str.strip\<close> are
    modelled on ASCII text.
  \<^item> An exception is a value of type \<open>exn\<close>; it stands for an instance of Python's
    \<^verbatim>\<open>Exception\<close> (what \<^verbatim>\<open>except Exception\<close> catches). A function that may raise
    returns \<open>exn + 'a\<close>, with \<open>Inl\<close> for the raise.
  \<^item> Calls run one after the other (no threads), so the lock around the two accesses
    to \<^verbatim>\<open>_last_reaction_time\<close> does not appear.
  \<^item> Logging and printing are left out.
\<close>

subsection \<open>Data\<close>

datatype Emotion = HAPPY | EXCITED | SAD | CURIOUS | THOUGHTFUL | ANGRY | SURPRISED | NEUTRAL

fun emotion_value :: "Emotion \<Rightarrow> string" where
  "emotion_value HAPPY = ''happy''"
| "emotion_value EXCITED = ''excited''"
| "emotion_value SAD = ''sad''"
| "emotion_value CURIOUS = ''curious''"
| "emotion_value THOUGHTFUL = ''thoughtful''"
| "emotion_value ANGRY = ''angry''"
| "emotion_value SURPRISED = ''surprised''"
| "emotion_value NEUTRAL = ''neutral''"

datatype exn = RuntimeError | ValueError | TypeError | AttributeError | OverflowError
  | OtherException string

text \<open>A value produced by \<^verbatim>\<open>json.loads\<close>; an object is the list of its items.\<close>

datatype json = JNull | JBool bool | JInt int | JFloat real | JStr string
  | JArr "json list" | JObj "(string \<times> json) list"

text \<open>The dict returned by \<^verbatim>\<open>analyze_emotion\<close> (lines 247-253).\<close>

record classification =
  emotion :: Emotion
  emotion_str :: string
  confidence :: real
  reasoning :: json
  raw_response :: string

text \<open>The fields of an \<^verbatim>\<open>EmotionService\<close> instance (lines 100-131).\<close>

record EmotionService =
  provider :: string
  model_name :: string
  auto_react :: bool
  min_confidence :: real
  cooldown_seconds :: real
  last_reaction_time :: real
  emotion_to_recording :: "Emotion \<Rightarrow> string list option"

text \<open>
  Everything outside the service that one call of \<^verbatim>\<open>trigger_reaction\<close> meets.
  \<^item> \<open>time_time\<close>: what \<^verbatim>\<open>time.time()\<close> returns at line 297.
  \<^item> \<open>dispatch_done_time\<close>: the clock at the moment the dispatch call of line 353
    returns. The code never reads the clock a second time; the field is there so that
    "the time at which the dispatch completes" can be spoken about.
  \<^item> \<open>generate_content\<close>: the remote model, from the prompt to the text of the response
    (\<^verbatim>\<open>response.text\<close>), or the exception the request raises.
  \<^item> \<open>re_fenced\<close>: group 1 of the first match of the regular expression of line 179
    (a JSON object inside a fenced code block), \<open>None\<close> without a match.
  \<^item> \<open>re_braces\<close>: the first match of the regular expression of line 189 (an object in
    braces), \<open>None\<close> without a match.
  \<^item> \<open>json_loads\<close>: \<^verbatim>\<open>json.loads\<close>, \<open>None\<close> where it raises \<^verbatim>\<open>JSONDecodeError\<close>.
  \<^item> \<open>float_of_str\<close>: \<^verbatim>\<open>float\<close> on a string, \<open>None\<close> where it raises \<^verbatim>\<open>ValueError\<close>.
  \<^item> \<open>get_recording_path\<close>: the recording store (\<^verbatim>\<open>lelamp.user_data\<close>), from a name to
    its path, \<open>None\<close> when the recording is absent, or the exception the lookup raises.
  \<^item> \<open>animation_service\<close>: \<^verbatim>\<open>lelamp.globals.animation_service\<close>, \<open>None\<close> when it is
    not set; its \<^verbatim>\<open>dispatch\<close> method gives \<open>Some e\<close> when it raises \<open>e\<close> and \<open>None\<close> when
    it returns.
\<close>

record env =
  time_time :: real
  dispatch_done_time :: real
  generate_content :: "string \<Rightarrow> exn + string"
  re_fenced :: "string \<Rightarrow> string option"
  re_braces :: "string \<Rightarrow> string option"
  json_loads :: "string \<Rightarrow> json option"
  float_of_str :: "string \<Rightarrow> real option"
  get_recording_path :: "string \<Rightarrow> exn + string option"
  animation_service :: "(string \<Rightarrow> string \<Rightarrow> exn option) option"

text \<open>What a call does to the outside: the calls it makes, in order.\<close>

datatype event = EvAnalyze string | EvGenerate string | EvDispatch string string

text \<open>
  The result of one call of \<^verbatim>\<open>trigger_reaction\<close>: the value returned (\<open>Inl\<close> when an
  exception reaches the caller), the service afterwards, and the calls made.
\<close>

record outcome =
  returned :: "exn + bool"
  after :: EmotionService
  trace :: "event list"

subsection \<open>Construction (lines 82-133)\<close>

definition default_emotion_to_recording :: "Emotion \<Rightarrow> string list option" where
  "default_emotion_to_recording = map_of
     [(HAPPY, [''happy_wiggle'', ''excited'']),
      (EXCITED, [''excited'', ''luxo_excited'', ''happy_wiggle'']),
      (SAD, [''sad'', ''luxo_sad'', ''head_down'']),
      (CURIOUS, [''curious'', ''luxo_curious'']),
      (THOUGHTFUL, [''thinking'', ''thoughtful'']),
      (ANGRY, [''luxo_sad'', ''head_down'', ''sad'']),
      (SURPRISED, [''luxo_excited'', ''excited'']),
      (NEUTRAL, [''idle''])]"

text \<open>
  \<open>gemini_available\<close> is the module flag \<^verbatim>\<open>GEMINI_AVAILABLE\<close>, \<open>api_key\<close> the value of
  \<^verbatim>\<open>os.getenv("GOOGLE_API_KEY")\<close>.
\<close>

definition EmotionService_init ::
  "bool \<Rightarrow> string option \<Rightarrow> string \<Rightarrow> string \<Rightarrow> bool \<Rightarrow> real \<Rightarrow> real \<Rightarrow> exn + EmotionService" where
  "EmotionService_init gemini_available api_key prov model auto minc cool =
     (if \<not> gemini_available then Inl RuntimeError
      else if api_key = None \<or> api_key = Some [] then Inl ValueError
      else Inr \<lparr>provider = prov, model_name = model, auto_react = auto,
                min_confidence = minc, cooldown_seconds = cool,
                last_reaction_time = 0,
                emotion_to_recording = default_emotion_to_recording\<rparr>)"

subsection \<open>Python's built-ins, as far as the code uses them\<close>

definition lower_char :: "char \<Rightarrow> char" where
  "lower_char c = (let n = (of_char c :: nat) in
     if 65 \<le> n \<and> n \<le> 90 then char_of (n + 32) else c)"

definition py_lower :: "string \<Rightarrow> string" where
  "py_lower s = map lower_char s"

definition py_isspace :: "char \<Rightarrow> bool" where
  "py_isspace c = (let n = (of_char c :: nat) in (9 \<le> n \<and> n \<le> 13) \<or> (28 \<le> n \<and> n \<le> 32))"

definition py_strip :: "string \<Rightarrow> string" where
  "py_strip s = rev (dropWhile py_isspace (rev (dropWhile py_isspace s)))"

text \<open>Truth value of a JSON value, as \<^verbatim>\<open>not result\<close> tests it.\<close>

fun truthy :: "json \<Rightarrow> bool" where
  "truthy JNull = False"
| "truthy (JBool b) = b"
| "truthy (JInt i) = (i \<noteq> 0)"
| "truthy (JFloat r) = (r \<noteq> 0)"
| "truthy (JStr s) = (s \<noteq> [])"
| "truthy (JArr xs) = (xs \<noteq> [])"
| "truthy (JObj kvs) = (kvs \<noteq> [])"

text \<open>The variable \<^verbatim>\<open>result\<close> of lines 176-197, which starts as \<^verbatim>\<open>None\<close>.\<close>

definition falsy :: "json option \<Rightarrow> bool" where
  "falsy r = (case r of None \<Rightarrow> True | Some v \<Rightarrow> \<not> truthy v)"

text \<open>\<^verbatim>\<open>x.get(k, d)\<close>: only a dict has the method.\<close>

fun py_get :: "json \<Rightarrow> string \<Rightarrow> json \<Rightarrow> exn + json" where
  "py_get (JObj kvs) k d = Inr (case map_of kvs k of None \<Rightarrow> d | Some v \<Rightarrow> v)"
| "py_get _ k d = Inl AttributeError"

text \<open>\<^verbatim>\<open>x.lower()\<close>: only a string has the method.\<close>

fun py_lower_of :: "json \<Rightarrow> exn + string" where
  "py_lower_of (JStr s) = Inr (py_lower s)"
| "py_lower_of _ = Inl AttributeError"

text \<open>
  \<^verbatim>\<open>float(x)\<close>: a number converts (an integer too large for a double raises
  \<^verbatim>\<open>OverflowError\<close>), a string is parsed, anything else raises \<^verbatim>\<open>TypeError\<close>.
\<close>

fun py_float :: "env \<Rightarrow> json \<Rightarrow> exn + real" where
  "py_float E (JFloat r) = Inr r"
| "py_float E (JInt i) =
     (if \<bar>i\<bar> < 2 ^ 1024 - 2 ^ 970 then Inr (of_int i) else Inl OverflowError)"
| "py_float E (JBool b) = Inr (if b then 1 else 0)"
| "py_float E (JStr s) = (case float_of_str E s of None \<Rightarrow> Inl ValueError | Some r \<Rightarrow> Inr r)"
| "py_float E JNull = Inl TypeError"
| "py_float E (JArr xs) = Inl TypeError"
| "py_float E (JObj kvs) = Inl TypeError"

text \<open>
  \<^verbatim>\<open>reasoning[:100] if reasoning else 'N/A'\<close> inside the log message (line 242): a
  string or a list can be sliced, any other true value raises.
\<close>

fun reasoning_snippet :: "json \<Rightarrow> exn + json" where
  "reasoning_snippet (JStr s) = Inr (JStr (if s \<noteq> [] then take 100 s else ''N/A''))"
| "reasoning_snippet (JArr xs) = Inr (if xs \<noteq> [] then JArr (take 100 xs) else JStr ''N/A'')"
| "reasoning_snippet v = (if truthy v then Inl TypeError else Inr (JStr ''N/A''))"

subsection \<open>The classifier: \<^verbatim>\<open>analyze_emotion\<close> (lines 135-257)\<close>

text \<open>The prompt of lines 150-159, with the text put in.\<close>

definition prompt_of :: "string \<Rightarrow> string" where
  \<open>prompt_of text =
     ''Analyze the following text for emotion. Respond with ONLY a JSON object in this exact format:\<newline>'' @
     ''{\<newline>'' @
     ''    "emotion": "happy|excited|sad|curious|thoughtful|angry|surprised|neutral",\<newline>'' @
     ''    "confidence": 0.0-1.0,\<newline>'' @
     ''    "reasoning": "brief explanation"\<newline>'' @
     ''}\<newline>'' @
     ''\<newline>'' @
     ''Text to analyze: "'' @ text @ ''"\<newline>'' @
     ''\<newline>'' @
     ''JSON response:''\<close>

text \<open>
  Lines 176-203, the three attempts at finding a JSON value in the response. \<open>None\<close> is
  the \<^verbatim>\<open>return None\<close> of line 203; \<open>Some v\<close> is the value of \<^verbatim>\<open>result\<close> at line 205.
\<close>

definition extract_result :: "env \<Rightarrow> string \<Rightarrow> json option" where
  "extract_result E response_text =
     (let r1 = (case re_fenced E response_text of
                  None \<Rightarrow> None
                | Some json_str \<Rightarrow> json_loads E json_str);
          r2 = (if falsy r1 then
                  (case re_braces E response_text of
                     None \<Rightarrow> r1
                   | Some json_str \<Rightarrow>
                       (case json_loads E json_str of None \<Rightarrow> r1 | Some v \<Rightarrow> Some v))
                else r1)
      in if falsy r2 then json_loads E response_text else r2)"

text \<open>The table \<^verbatim>\<open>emotion_map\<close> of lines 214-234, and \<^verbatim>\<open>emotion_map.get(s, Emotion.NEUTRAL)\<close>.\<close>

definition emotion_map :: "(string \<times> Emotion) list" where
  "emotion_map =
     [(''happy'', HAPPY),
      (''excited'', EXCITED),
      (''joy'', EXCITED),
      (''sad'', SAD),
      (''disappointed'', SAD),
      (''upset'', SAD),
      (''curious'', CURIOUS),
      (''interested'', CURIOUS),
      (''wondering'', CURIOUS),
      (''thoughtful'', THOUGHTFUL),
      (''thinking'', THOUGHTFUL),
      (''contemplating'', THOUGHTFUL),
      (''angry'', ANGRY),
      (''frustrated'', ANGRY),
      (''annoyed'', ANGRY),
      (''surprised'', SURPRISED),
      (''shocked'', SURPRISED),
      (''neutral'', NEUTRAL),
      (''calm'', NEUTRAL)]"

definition emotion_map_get :: "string \<Rightarrow> Emotion" where
  "emotion_map_get s = (case map_of emotion_map s of None \<Rightarrow> NEUTRAL | Some e \<Rightarrow> e)"

text \<open>Lines 208-253: from the parsed value to the returned dict, or the exception raised.\<close>

definition interpret_result :: "env \<Rightarrow> string \<Rightarrow> json \<Rightarrow> exn + classification" where
  "interpret_result E response_text result =
     (case py_get result ''emotion'' (JStr []) of Inl x \<Rightarrow> Inl x | Inr ev \<Rightarrow>
      (case py_lower_of ev of Inl x \<Rightarrow> Inl x | Inr emotion_s \<Rightarrow>
       (case py_get result ''confidence'' (JFloat 0) of Inl x \<Rightarrow> Inl x | Inr cv \<Rightarrow>
        (case py_float E cv of Inl x \<Rightarrow> Inl x | Inr conf \<Rightarrow>
         (case py_get result ''reasoning'' (JStr []) of Inl x \<Rightarrow> Inl x | Inr rv \<Rightarrow>
          (case reasoning_snippet rv of Inl x \<Rightarrow> Inl x | Inr snippet \<Rightarrow>
             Inr \<lparr>emotion = emotion_map_get emotion_s,
                  emotion_str = emotion_value (emotion_map_get emotion_s),
                  confidence = conf,
                  reasoning = rv,
                  raw_response = response_text\<rparr>))))))"

text \<open>The body of the \<^verbatim>\<open>try\<close> (lines 150-253); \<open>Inl\<close> is an exception on its way to line 255.\<close>

definition analyze_try :: "env \<Rightarrow> string \<Rightarrow> exn + classification option" where
  "analyze_try E text =
     (case generate_content E (prompt_of text) of
        Inl x \<Rightarrow> Inl x
      | Inr response \<Rightarrow>
          (let response_text = py_strip response in
           case extract_result E response_text of
             None \<Rightarrow> Inr None
           | Some result \<Rightarrow>
               if \<not> truthy result then Inr None
               else (case interpret_result E response_text result of
                       Inl x \<Rightarrow> Inl x
                     | Inr c \<Rightarrow> Inr (Some c))))"

text \<open>
  \<^verbatim>\<open>analyze_emotion\<close>: the result (\<open>None\<close> for Python's \<^verbatim>\<open>None\<close>) and the remote calls
  made. Every exception of the body is caught at line 255 and becomes \<open>None\<close>.
\<close>

definition analyze_emotion :: "env \<Rightarrow> string \<Rightarrow> classification option \<times> event list" where
  "analyze_emotion E text =
     (if text = [] \<or> py_strip text = [] then (None, [])
      else (case analyze_try E text of Inl x \<Rightarrow> None | Inr r \<Rightarrow> r,
            [EvGenerate (prompt_of text)]))"

subsection \<open>\<^verbatim>\<open>map_emotion_to_recording\<close> (lines 259-280)\<close>

text \<open>
  The loop of lines 275-277 over the candidates: \<open>Inr (Some n)\<close> is \<^verbatim>\<open>return n\<close>,
  \<open>Inr None\<close> is the end of the loop, \<open>Inl x\<close> an exception raised by the store.
\<close>

fun first_existing :: "env \<Rightarrow> string list \<Rightarrow> exn + string option" where
  "first_existing E [] = Inr None"
| "first_existing E (recording_name # rest) =
     (case get_recording_path E recording_name of
        Inl x \<Rightarrow> Inl x
      | Inr (Some path) \<Rightarrow> Inr (Some recording_name)
      | Inr None \<Rightarrow> first_existing E rest)"

definition map_emotion_to_recording :: "env \<Rightarrow> EmotionService \<Rightarrow> Emotion \<Rightarrow> exn + string option" where
  "map_emotion_to_recording E S e =
     (let recordings = (case emotion_to_recording S e of None \<Rightarrow> [] | Some rs \<Rightarrow> rs) in
      case recordings of
        [] \<Rightarrow> Inr None
      | first # others \<Rightarrow>
          (case first_existing E recordings of
             Inl x \<Rightarrow> Inl x
           | Inr (Some n) \<Rightarrow> Inr (Some n)
           | Inr None \<Rightarrow> Inr (Some first)))"

subsection \<open>\<^verbatim>\<open>trigger_reaction\<close> (lines 282-368)\<close>

text \<open>A \<^verbatim>\<open>return False\<close>: the service is as it was.\<close>

definition rejected :: "EmotionService \<Rightarrow> event list \<Rightarrow> outcome" where
  "rejected S tr = \<lparr>returned = Inr False, after = S, trace = tr\<rparr>"

text \<open>An exception that nothing catches: the service is as it was.\<close>

definition propagated :: "exn \<Rightarrow> EmotionService \<Rightarrow> event list \<Rightarrow> outcome" where
  "propagated x S tr = \<lparr>returned = Inl x, after = S, trace = tr\<rparr>"

definition trigger_reaction :: "env \<Rightarrow> EmotionService \<Rightarrow> string \<Rightarrow> outcome" where
  "trigger_reaction E S text =
     (if \<not> auto_react S then rejected S []
      else
        let current_time = time_time E in
        if current_time - last_reaction_time S < cooldown_seconds S then rejected S []
        else
          (case analyze_emotion E text of
             (None, calls) \<Rightarrow> rejected S (EvAnalyze text # calls)
           | (Some result, calls) \<Rightarrow>
               let tr = EvAnalyze text # calls in
               if confidence result < min_confidence S then rejected S tr
               else if emotion result = NEUTRAL then rejected S tr
               else
                 (case map_emotion_to_recording E S (emotion result) of
                    Inl x \<Rightarrow> propagated x S tr
                  | Inr None \<Rightarrow> rejected S tr
                  | Inr (Some recording_name) \<Rightarrow>
                      if recording_name = [] then rejected S tr
                      else
                        (case animation_service E of
                           None \<Rightarrow> rejected S tr
                         | Some dispatch \<Rightarrow>
                             (case get_recording_path E recording_name of
                                Inl x \<Rightarrow> propagated x S tr
                              | Inr None \<Rightarrow> rejected S tr
                              | Inr (Some path) \<Rightarrow>
                                  (case dispatch ''play'' recording_name of
                                     Some x \<Rightarrow>
                                       rejected S (tr @ [EvDispatch ''play'' recording_name])
                                   | None \<Rightarrow>
                                       \<lparr>returned = Inr True,
                                        after = S\<lparr>last_reaction_time := current_time\<rparr>,
                                        trace = tr @ [EvDispatch ''play'' recording_name]\<rparr>))))))"


subsection \<open>Reading an outcome\<close>

text \<open>The dispatch calls among the calls made, as (command, recording name).\<close>

fun dispatches :: "event list \<Rightarrow> (string \<times> string) list" where
  "dispatches [] = []"
| "dispatches (EvDispatch command name # es) = (command, name) # dispatches es"
| "dispatches (e # es) = dispatches es"

text \<open>The value \<^verbatim>\<open>result.get(k, d)\<close> of an object with the items \<open>kvs\<close>.\<close>

definition field :: "(string \<times> json) list \<Rightarrow> string \<Rightarrow> json \<Rightarrow> json" where
  "field kvs k d = (case map_of kvs k of None \<Rightarrow> d | Some v \<Rightarrow> v)"

subsection \<open>Concrete services and surroundings\<close>

text \<open>The service that the constructor builds from the defaults of the configuration.\<close>

definition demo_service :: EmotionService where
  "demo_service = \<lparr>provider = ''gemini'', model_name = ''gemini-1.5-flash'', auto_react = True,
     min_confidence = 0.7, cooldown_seconds = 2, last_reaction_time = 0,
     emotion_to_recording = default_emotion_to_recording\<rparr>"

text \<open>
  Surroundings in which the remote model answers every prompt with the text \<open>response\<close>,
  a bare JSON object whose value is \<open>parsed\<close>; the clock reads 100 at the cooldown check
  and 101 when a dispatch returns; the store holds the one recording
  \<^verbatim>\<open>happy_wiggle\<close>; the animation service is set and its dispatch returns.
\<close>

definition reply_env :: "string \<Rightarrow> json \<Rightarrow> env" where
  "reply_env response parsed =
     \<lparr>time_time = 100, dispatch_done_time = 101,
      generate_content = (\<lambda>prompt. Inr response),
      re_fenced = (\<lambda>s. None),
      re_braces = (\<lambda>s. if s = response then Some response else None),
      json_loads = (\<lambda>s. if s = response then Some parsed else None),
      float_of_str = (\<lambda>s. if s = ''0.85'' then Some 0.85 else None),
      get_recording_path = (\<lambda>n. if n = ''happy_wiggle''
         then Inr (Some ''recordings/happy_wiggle.csv'') else Inr None),
      animation_service = Some (\<lambda>command name. None)\<rparr>"

definition demo_env :: env where
  \<open>demo_env = reply_env ''{"emotion": "happy", "confidence": 0.85, "reasoning": "glad"}''
     (JObj [(''emotion'', JStr ''happy''), (''confidence'', JFloat 0.85),
            (''reasoning'', JStr ''glad'')])\<close>

definition neutral_env :: env where
  \<open>neutral_env = reply_env ''{"emotion": "neutral", "confidence": 0.99}''
     (JObj [(''emotion'', JStr ''neutral''), (''confidence'', JFloat 0.99)])\<close>

definition joy_env :: env where
  \<open>joy_env = reply_env ''{"emotion": "JOY", "confidence": 0.9}''
     (JObj [(''emotion'', JStr ''JOY''), (''confidence'', JFloat 0.9)])\<close>

definition no_emotion_env :: env where
  \<open>no_emotion_env = reply_env ''{"confidence": 0.9}'' (JObj [(''confidence'', JFloat 0.9)])\<close>

definition no_confidence_env :: env where
  \<open>no_confidence_env = reply_env ''{"emotion": "happy"}'' (JObj [(''emotion'', JStr ''happy'')])\<close>

definition bad_confidence_env :: env where
  \<open>bad_confidence_env = reply_env ''{"emotion": "happy", "confidence": "high"}''
     (JObj [(''emotion'', JStr ''happy''), (''confidence'', JStr ''high'')])\<close>

definition failing_dispatch_env :: env where
  "failing_dispatch_env = demo_env\<lparr>animation_service :=
     Some (\<lambda>command name. Some (OtherException ''dispatch failed''))\<rparr>"

definition failing_store_env :: env where
  "failing_store_env = demo_env\<lparr>get_recording_path := (\<lambda>n. Inl (OtherException ''OSError''))\<rparr>"

definition no_service_env :: env where
  "no_service_env = demo_env\<lparr>animation_service := None\<rparr>"


section \<open>Properties\<close>

lemmas model_defs = trigger_reaction_def rejected_def propagated_def analyze_emotion_def
  analyze_try_def extract_result_def falsy_def interpret_result_def emotion_map_get_def
  emotion_map_def py_lower_def lower_char_def map_emotion_to_recording_def
  default_emotion_to_recording_def py_strip_def py_isspace_def Let_def field_def
  char_of_def bit_Suc_0_iff

lemmas demo_defs = demo_service_def reply_env_def demo_env_def neutral_env_def joy_env_def
  no_emotion_env_def no_confidence_env_def bad_confidence_env_def failing_dispatch_env_def
  failing_store_env_def no_service_env_def

lemma init_demo_service:
  "EmotionService_init True (Some ''key'') ''gemini'' ''gemini-1.5-flash'' True 0.7 2
     = Inr demo_service"
  by (simp add: EmotionService_init_def demo_service_def)

subsection \<open>The cooldown gate\<close>

text \<open>
  C1. A call made while \<^verbatim>\<open>now - last_reaction_time < cooldown_seconds\<close> returns false
  and makes no call at all: the classifier is not invoked (neither \<^verbatim>\<open>analyze_emotion\<close>
  nor the remote model) and nothing is dispatched. The service is left as it was.
\<close>

theorem trigger_reaction_cooldown:
  "time_time E - last_reaction_time S < cooldown_seconds S \<Longrightarrow>
   returned (trigger_reaction E S text) = Inr False \<and>
   trace (trigger_reaction E S text) = [] \<and>
   after (trigger_reaction E S text) = S"
  by (simp add: trigger_reaction_def rejected_def)

theorem trigger_reaction_cooldown_witness:
  "time_time demo_env - last_reaction_time (demo_service\<lparr>last_reaction_time := 99\<rparr>)
     < cooldown_seconds (demo_service\<lparr>last_reaction_time := 99\<rparr>) \<and>
   returned (trigger_reaction demo_env (demo_service\<lparr>last_reaction_time := 99\<rparr>) ''I love it'')
     = Inr False \<and>
   trace (trigger_reaction demo_env (demo_service\<lparr>last_reaction_time := 99\<rparr>) ''I love it'')
     = []"
  using trigger_reaction_cooldown
    [of demo_env "demo_service\<lparr>last_reaction_time := 99\<rparr>" "''I love it''"]
  by (simp add: demo_defs)

subsection \<open>Failure of the dispatch\<close>

text \<open>
  C2. When the call reaches the dispatch and the dispatcher raises, the exception is
  caught: \<^verbatim>\<open>trigger_reaction\<close> returns false and \<^verbatim>\<open>last_reaction_time\<close> keeps the value
  it had before the call.
\<close>

theorem dispatch_raises_rejected:
  "animation_service E = Some dispatch \<Longrightarrow>
   EvDispatch command name \<in> set (trace (trigger_reaction E S text)) \<Longrightarrow>
   dispatch command name = Some x \<Longrightarrow>
   returned (trigger_reaction E S text) = Inr False \<and>
   last_reaction_time (after (trigger_reaction E S text)) = last_reaction_time S"
  by (auto simp: trigger_reaction_def rejected_def propagated_def Let_def analyze_emotion_def
      split: prod.splits option.splits sum.splits if_splits)

theorem dispatch_raises_rejected_witness:
  "animation_service failing_dispatch_env
     = Some (\<lambda>command name. Some (OtherException ''dispatch failed'')) \<and>
   EvDispatch ''play'' ''happy_wiggle''
     \<in> set (trace (trigger_reaction failing_dispatch_env demo_service ''I love it'')) \<and>
   returned (trigger_reaction failing_dispatch_env demo_service ''I love it'') = Inr False \<and>
   last_reaction_time (after (trigger_reaction failing_dispatch_env demo_service ''I love it''))
     = 0"
proof -
  have a: "animation_service failing_dispatch_env
      = Some (\<lambda>command name. Some (OtherException ''dispatch failed''))"
    by (simp add: demo_defs)
  have b: "EvDispatch ''play'' ''happy_wiggle''
      \<in> set (trace (trigger_reaction failing_dispatch_env demo_service ''I love it''))"
    by (simp add: model_defs demo_defs)
  have c: "last_reaction_time demo_service = 0"
    by (simp add: demo_defs)
  from dispatch_raises_rejected [OF a b] a b c show ?thesis by simp
qed

subsection \<open>The timestamp written by a successful call\<close>

text \<open>
  C3, as the claim states it, fails: in \<open>demo_env\<close> the clock reads 100 at the cooldown
  check and 101 when the dispatch returns; the call returns true and stores 100, not the
  time at which the dispatch completed.
\<close>

theorem last_reaction_time_not_completion_time:
  "returned (trigger_reaction demo_env demo_service ''I love it'') = Inr True \<and>
   last_reaction_time (after (trigger_reaction demo_env demo_service ''I love it''))
     \<noteq> dispatch_done_time demo_env"
  by (simp add: model_defs demo_defs)

text \<open>
  C3, amended. A call that returns true has set \<^verbatim>\<open>last_reaction_time\<close> to
  \<^verbatim>\<open>current_time\<close>, the clock reading taken at the cooldown check at the start of that
  call (line 297), before the classifier and the dispatcher were called.
\<close>

theorem last_reaction_time_is_check_time:
  "returned (trigger_reaction E S text) = Inr True \<Longrightarrow>
   last_reaction_time (after (trigger_reaction E S text)) = time_time E"
  by (auto simp: trigger_reaction_def rejected_def propagated_def Let_def
      split: prod.splits option.splits sum.splits if_splits)

theorem last_reaction_time_is_check_time_witness:
  "returned (trigger_reaction demo_env demo_service ''I love it'') = Inr True \<and>
   last_reaction_time (after (trigger_reaction demo_env demo_service ''I love it'')) = 100"
proof -
  have a: "returned (trigger_reaction demo_env demo_service ''I love it'') = Inr True"
    by (simp add: model_defs demo_defs)
  have b: "time_time demo_env = 100"
    by (simp add: demo_defs)
  from last_reaction_time_is_check_time [OF a] a b show ?thesis by simp
qed

subsection \<open>Exceptions and the caller\<close>


lemma first_existing_no_raise:
  "\<forall>n x. get_recording_path E n \<noteq> Inl x \<Longrightarrow> first_existing E ns \<noteq> Inl y"
  by (induction ns) (auto split: sum.splits option.splits)

lemma map_emotion_no_raise:
  "\<forall>n x. get_recording_path E n \<noteq> Inl x \<Longrightarrow> map_emotion_to_recording E S e \<noteq> Inl y"
  using first_existing_no_raise [of E]
  by (auto simp: map_emotion_to_recording_def Let_def split: sum.splits option.splits list.splits)



subsection \<open>The neutral emotion\<close>

text \<open>
  C5. When the classification is \<^verbatim>\<open>neutral\<close>, whatever its confidence,
  \<^verbatim>\<open>trigger_reaction\<close> returns false and dispatches nothing.
\<close>

theorem neutral_never_dispatches:
  "fst (analyze_emotion E text) = Some result \<Longrightarrow> emotion result = NEUTRAL \<Longrightarrow>
   returned (trigger_reaction E S text) = Inr False \<and>
   dispatches (trace (trigger_reaction E S text)) = [] \<and>
   after (trigger_reaction E S text) = S"
  by (auto simp: trigger_reaction_def rejected_def propagated_def Let_def analyze_emotion_def
      split: prod.splits option.splits sum.splits if_splits)

theorem neutral_never_dispatches_witness:
  "map_option emotion (fst (analyze_emotion neutral_env ''I love it'')) = Some NEUTRAL \<and>
   map_option confidence (fst (analyze_emotion neutral_env ''I love it'')) = Some 0.99 \<and>
   min_confidence demo_service < 0.99 \<and>
   returned (trigger_reaction neutral_env demo_service ''I love it'') = Inr False \<and>
   dispatches (trace (trigger_reaction neutral_env demo_service ''I love it'')) = []"
proof -
  obtain r where a: "fst (analyze_emotion neutral_env ''I love it'') = Some r"
    and b: "emotion r = NEUTRAL" and c: "confidence r = 0.99"
    by (simp add: model_defs demo_defs)
  have d: "min_confidence demo_service < 0.99"
    by (simp add: demo_defs)
  from neutral_never_dispatches [OF a b] a b c d show ?thesis by simp
qed

subsection \<open>The animation service is not set\<close>

text \<open>
  C10. When \<^verbatim>\<open>lelamp.globals.animation_service\<close> is not set, \<^verbatim>\<open>trigger_reaction\<close>
  returns false and dispatches nothing (the store's lookups not raising). The witness
  is a call in which every other gate passes: with the service set, the same call
  returns true.
\<close>

theorem no_animation_service_rejected:
  "animation_service E = None \<Longrightarrow> \<forall>n x. get_recording_path E n \<noteq> Inl x \<Longrightarrow>
   returned (trigger_reaction E S text) = Inr False \<and>
   dispatches (trace (trigger_reaction E S text)) = [] \<and>
   after (trigger_reaction E S text) = S"
  using map_emotion_no_raise [of E S]
  by (auto simp: trigger_reaction_def rejected_def propagated_def Let_def analyze_emotion_def
      split: prod.splits option.splits sum.splits if_splits)

theorem no_animation_service_rejected_witness:
  "animation_service no_service_env = None \<and>
   (\<forall>n x. get_recording_path no_service_env n \<noteq> Inl x) \<and>
   returned (trigger_reaction no_service_env demo_service ''I love it'') = Inr False \<and>
   dispatches (trace (trigger_reaction no_service_env demo_service ''I love it'')) = [] \<and>
   returned (trigger_reaction
      (no_service_env\<lparr>animation_service := Some (\<lambda>command name. None)\<rparr>)
      demo_service ''I love it'') = Inr True"
proof -
  have a: "animation_service no_service_env = None"
    by (simp add: demo_defs)
  have b: "\<forall>n x. get_recording_path no_service_env n \<noteq> Inl x"
    by (simp add: demo_defs)
  have c: "returned (trigger_reaction
      (no_service_env\<lparr>animation_service := Some (\<lambda>command name. None)\<rparr>)
      demo_service ''I love it'') = Inr True"
    by (simp add: model_defs demo_defs)
  from no_animation_service_rejected [OF a b] a b c show ?thesis by simp
qed

subsection \<open>What \<^verbatim>\<open>analyze_emotion\<close> makes of the parsed object\<close>

lemma analyze_emotion_object:
  assumes "text \<noteq> []" "py_strip text \<noteq> []"
      and "generate_content E (prompt_of text) = Inr response"
      and "extract_result E (py_strip response) = Some (JObj kvs)"
  shows "fst (analyze_emotion E text) =
     (if kvs = [] then None
      else case interpret_result E (py_strip response) (JObj kvs) of
             Inl x \<Rightarrow> None | Inr c \<Rightarrow> Some c)"
  using assms by (simp add: analyze_emotion_def analyze_try_def Let_def split: sum.splits)

lemma interpret_result_object:
  "interpret_result E rt (JObj kvs) =
     (case py_lower_of (field kvs ''emotion'' (JStr [])) of Inl x \<Rightarrow> Inl x | Inr es \<Rightarrow>
      (case py_float E (field kvs ''confidence'' (JFloat 0)) of Inl x \<Rightarrow> Inl x | Inr c \<Rightarrow>
       (case reasoning_snippet (field kvs ''reasoning'' (JStr [])) of Inl x \<Rightarrow> Inl x | Inr sn \<Rightarrow>
          Inr \<lparr>emotion = emotion_map_get es, emotion_str = emotion_value (emotion_map_get es),
               confidence = c, reasoning = field kvs ''reasoning'' (JStr []),
               raw_response = rt\<rparr>)))"
  by (simp add: interpret_result_def field_def split: sum.splits)

lemma rejected_without_result:
  "fst (analyze_emotion E text) = None \<Longrightarrow>
   returned (trigger_reaction E S text) = Inr False \<and>
   dispatches (trace (trigger_reaction E S text)) = []"
  by (auto simp: trigger_reaction_def rejected_def Let_def analyze_emotion_def
      split: prod.splits option.splits sum.splits if_splits)


lemma rejected_low_confidence:
  "fst (analyze_emotion E text) = Some r \<Longrightarrow> confidence r < min_confidence S \<Longrightarrow>
   returned (trigger_reaction E S text) = Inr False \<and>
   dispatches (trace (trigger_reaction E S text)) = []"
  by (auto simp: trigger_reaction_def rejected_def Let_def analyze_emotion_def
      split: prod.splits option.splits sum.splits if_splits)





text \<open>
  C7, as the claim states it, fails for a malformed confidence: in
  \<open>bad_confidence_env\<close> the object carries \<^verbatim>\<open>"confidence": "high"\<close>, \<^verbatim>\<open>float\<close> raises
  \<^verbatim>\<open>ValueError\<close>, the handler of line 255 catches it and \<^verbatim>\<open>analyze_emotion\<close> returns
  \<^verbatim>\<open>None\<close>: the analysis fails, no result with confidence 0.0 is returned.
\<close>

theorem malformed_confidence_fails_analysis:
  "py_float bad_confidence_env (JStr ''high'') = Inl ValueError \<and>
   fst (analyze_emotion bad_confidence_env ''I love it'') = None"
  by (simp add: model_defs demo_defs)

text \<open>
  C7, amended. With the other fields usable, the returned confidence is \<^verbatim>\<open>float\<close> of
  the confidence field, and 0.0 when the field is missing; a missing confidence is then
  rejected by the confidence gate whenever \<^verbatim>\<open>min_confidence\<close> is positive. A confidence
  that \<^verbatim>\<open>float\<close> cannot convert makes \<^verbatim>\<open>analyze_emotion\<close> return \<^verbatim>\<open>None\<close>, and
  \<^verbatim>\<open>trigger_reaction\<close> returns false without a dispatch.
\<close>

theorem confidence_coerced:
  assumes "text \<noteq> []" "py_strip text \<noteq> []"
      and "generate_content E (prompt_of text) = Inr response"
      and "extract_result E (py_strip response) = Some (JObj kvs)"
  shows
   "(kvs \<noteq> [] \<and> py_lower_of (field kvs ''emotion'' (JStr [])) = Inr es \<and>
     reasoning_snippet (field kvs ''reasoning'' (JStr [])) = Inr sn \<longrightarrow>
       (py_float E (field kvs ''confidence'' (JFloat 0)) = Inr c \<longrightarrow>
          map_option confidence (fst (analyze_emotion E text)) = Some c) \<and>
       (map_of kvs ''confidence'' = None \<longrightarrow>
          map_option confidence (fst (analyze_emotion E text)) = Some 0)) \<and>
    (map_of kvs ''confidence'' = None \<and> 0 < min_confidence S \<longrightarrow>
       returned (trigger_reaction E S text) = Inr False \<and>
       dispatches (trace (trigger_reaction E S text)) = []) \<and>
    (py_float E (field kvs ''confidence'' (JFloat 0)) = Inl x \<longrightarrow>
       fst (analyze_emotion E text) = None \<and>
       returned (trigger_reaction E S text) = Inr False \<and>
       dispatches (trace (trigger_reaction E S text)) = [])"
proof -
  note ae = analyze_emotion_object [OF assms]
  have A: "map_option confidence (fst (analyze_emotion E text)) = Some c"
    if "kvs \<noteq> []" "py_lower_of (field kvs ''emotion'' (JStr [])) = Inr es"
       "reasoning_snippet (field kvs ''reasoning'' (JStr [])) = Inr sn"
       "py_float E (field kvs ''confidence'' (JFloat 0)) = Inr c"
    using that by (simp add: ae interpret_result_object)
  have B: "map_option confidence (fst (analyze_emotion E text)) = Some 0"
    if "kvs \<noteq> []" "py_lower_of (field kvs ''emotion'' (JStr [])) = Inr es"
       "reasoning_snippet (field kvs ''reasoning'' (JStr [])) = Inr sn"
       "map_of kvs ''confidence'' = None"
    using that by (simp add: ae interpret_result_object) (simp add: field_def)
  have C: "returned (trigger_reaction E S text) = Inr False \<and>
       dispatches (trace (trigger_reaction E S text)) = []"
    if m: "map_of kvs ''confidence'' = None" and p: "0 < min_confidence S"
  proof (cases "fst (analyze_emotion E text)")
    case None
    then show ?thesis by (rule rejected_without_result)
  next
    case (Some r)
    then have "confidence r = 0"
      using m by (auto simp: ae interpret_result_object field_def split: if_splits sum.splits)
    with p have "confidence r < min_confidence S" by simp
    with Some show ?thesis by (rule rejected_low_confidence)
  qed
  have D: "fst (analyze_emotion E text) = None"
    if "py_float E (field kvs ''confidence'' (JFloat 0)) = Inl x"
    using that by (simp add: ae interpret_result_object split: sum.splits)
  from A B C D rejected_without_result [of E "text" S] show ?thesis by blast
qed

theorem confidence_coerced_witness:
  "map_option confidence (fst (analyze_emotion no_confidence_env ''I love it'')) = Some 0 \<and>
   returned (trigger_reaction no_confidence_env demo_service ''I love it'') = Inr False \<and>
   dispatches (trace (trigger_reaction no_confidence_env demo_service ''I love it'')) = [] \<and>
   fst (analyze_emotion bad_confidence_env ''I love it'') = None \<and>
   returned (trigger_reaction bad_confidence_env demo_service ''I love it'') = Inr False \<and>
   dispatches (trace (trigger_reaction bad_confidence_env demo_service ''I love it'')) = []"
proof -
  have t: "''I love it'' \<noteq> []" "py_strip ''I love it'' \<noteq> []"
    by (simp_all add: py_strip_def py_isspace_def)
  have m1: \<open>generate_content no_confidence_env (prompt_of ''I love it'') = Inr ''{"emotion": "happy"}''\<close>
    by (simp add: demo_defs)
  have m2: \<open>extract_result no_confidence_env (py_strip ''{"emotion": "happy"}'')
       = Some (JObj [(''emotion'', JStr ''happy'')])\<close>
    by (simp add: demo_defs model_defs)
  have b1: \<open>generate_content bad_confidence_env (prompt_of ''I love it'')
       = Inr ''{"emotion": "happy", "confidence": "high"}''\<close>
    by (simp add: demo_defs)
  have b2: \<open>extract_result bad_confidence_env (py_strip ''{"emotion": "happy", "confidence": "high"}'')
       = Some (JObj [(''emotion'', JStr ''happy''), (''confidence'', JStr ''high'')])\<close>
    by (simp add: demo_defs model_defs)
  have b3: "float_of_str bad_confidence_env ''high'' = None"
    by (simp add: demo_defs)
  have p: "0 < min_confidence demo_service"
    by (simp add: demo_defs)
  from confidence_coerced [OF t m1 m2, of "''happy''" "JStr ''N/A''" 0 demo_service ValueError]
       confidence_coerced [OF t b1 b2, of "''happy''" "JStr ''N/A''" 0 demo_service ValueError]
       b3 p
  show ?thesis by (simp add: field_def py_lower_def lower_char_def)
qed

subsection \<open>The mapping from an emotion to a recording\<close>





subsection \<open>The invariant of \<^verbatim>\<open>last_reaction_time\<close>\<close>










end
